theory Spec2Isabelle
  imports Main
begin

section \<open>Host platform\<close>

text \<open>
  The program is TypeScript running on a JavaScript engine. Strings are modelled as
  \<^typ>\<open>string\<close>, a JavaScript \<open>number\<close> used as a cell index as \<^typ>\<open>int\<close>.
  The engine's regular expressions are not code of the repository: the constructor
  \<open>new RegExp(pattern, flags)\<close> is a parameter of the model. It either throws
  (\<open>Inl\<close>) or yields the function \<open>value \<mapsto> regex.test(value)\<close> of the fresh object.
\<close>

datatype js_error = SyntaxError | TypeError

type_synonym regexp_ctor = "string \<Rightarrow> string \<Rightarrow> js_error + (string \<Rightarrow> bool)"

text \<open>\<open>String.prototype.startsWith\<close> and \<open>String.prototype.includes\<close>.\<close>

fun startsWith :: "string \<Rightarrow> string \<Rightarrow> bool" where
  "startsWith s [] = True"
| "startsWith [] (p # ps) = False"
| "startsWith (c # cs) (p # ps) = (c = p \<and> startsWith cs ps)"

fun js_includes :: "string \<Rightarrow> string \<Rightarrow> bool" where
  "js_includes [] p = (p = [])"
| "js_includes (c # cs) p = (startsWith (c # cs) p \<or> js_includes cs p)"

section \<open>Cell contexts and predicates (config-rules.ts)\<close>

text \<open>The type \<open>CellContext\<close>; the field \<open>text\<close> is named \<open>cell_text\<close>.\<close>

record cellContext =
  type :: string
  cell_text :: string
  editable :: bool
  tags :: "string list"
  outputText :: string
  hasError :: bool

text \<open>
  Modelled from the spec: the module \<open>schemas/predicate\<close> (\<open>PredicateSchema\<close>), which
  gives the type \<open>Predicate\<close>, is not among the sources. The spec describes it as a
  recursive tagged union over \<open>AND\<close>, \<open>OR\<close>, \<open>NOT\<close>, \<open>NearbyCell\<close>, \<open>CellType\<close>,
  \<open>Output\<close>, \<open>HasError\<close>, \<open>Content\<close>, \<open>IsEditable\<close> and \<open>Tags\<close>; a string match is
  a literal, an \<open>{is}\<close> wrapper or a regex with optional flags; an array match is
  \<open>{any}\<close> or \<open>{all}\<close>. \<open>Unrecognized\<close> stands for a node that carries none of the
  keys the evaluator probes.
\<close>

datatype stringMatch =
    Literal string
  | Is string
  | MatchesRegex string "string option"

datatype arrayMatch = Any stringMatch | All stringMatch

datatype predicate =
    AND "predicate list"
  | OR "predicate list"
  | NOT predicate
  | NearbyCell int predicate
  | CellType stringMatch
  | Output stringMatch
  | HasError bool
  | Content stringMatch
  | IsEditable bool
  | Tags arrayMatch
  | Unrecognized

text \<open>
  \<open>evaluateStringPredicate\<close>: the \<open>try { ... } catch { return false }\<close> around the
  regex is the \<open>Inl\<close> branch.
\<close>

fun evaluateStringPredicate :: "regexp_ctor \<Rightarrow> string \<Rightarrow> stringMatch \<Rightarrow> bool" where
  "evaluateStringPredicate rx v (Literal s) = (v = s)"
| "evaluateStringPredicate rx v (Is s) = (v = s)"
| "evaluateStringPredicate rx v (MatchesRegex pattern flags) =
     (case rx pattern (case flags of None \<Rightarrow> [] | Some f \<Rightarrow> f) of
        Inl e \<Rightarrow> False
      | Inr regex_test \<Rightarrow> regex_test v)"

fun evaluateArrayPredicate :: "regexp_ctor \<Rightarrow> string list \<Rightarrow> arrayMatch \<Rightarrow> bool" where
  "evaluateArrayPredicate rx vs (Any m) = list_ex (\<lambda>v. evaluateStringPredicate rx v m) vs"
| "evaluateArrayPredicate rx vs (All m) = list_all (\<lambda>v. evaluateStringPredicate rx v m) vs"

text \<open>
  The expected value of a \<open>cellType\<close> predicate:
  \<open>typeof expected === 'string' ? expected : expected.is ?? undefined\<close>. A regex
  object has no \<open>is\<close> key, so its expected value is \<open>undefined\<close>.
\<close>

fun cellTypeExpected :: "stringMatch \<Rightarrow> string option" where
  "cellTypeExpected (Literal s) = Some s"
| "cellTypeExpected (Is s) = Some s"
| "cellTypeExpected (MatchesRegex p f) = None"

text \<open>
  \<open>evaluatePredicate\<close>. The combinators come first and do not look the context up;
  every other variant first resolves \<open>contextForIndex(cellIndex)\<close> and is false
  without a context.
\<close>

fun evaluatePredicate ::
  "regexp_ctor \<Rightarrow> predicate \<Rightarrow> (int \<Rightarrow> cellContext option) \<Rightarrow> int \<Rightarrow> bool" where
  "evaluatePredicate rx (AND ps) contextForIndex cellIndex =
     list_all (\<lambda>inner. evaluatePredicate rx inner contextForIndex cellIndex) ps"
| "evaluatePredicate rx (OR ps) contextForIndex cellIndex =
     list_ex (\<lambda>inner. evaluatePredicate rx inner contextForIndex cellIndex) ps"
| "evaluatePredicate rx (NOT p) contextForIndex cellIndex =
     (\<not> evaluatePredicate rx p contextForIndex cellIndex)"
| "evaluatePredicate rx (NearbyCell relativePosition matches) contextForIndex cellIndex =
     evaluatePredicate rx matches contextForIndex (cellIndex + relativePosition)"
| "evaluatePredicate rx (CellType expected) contextForIndex cellIndex =
     (case contextForIndex cellIndex of
        None \<Rightarrow> False
      | Some context \<Rightarrow> cellTypeExpected expected = Some (type context))"
| "evaluatePredicate rx (Output m) contextForIndex cellIndex =
     (case contextForIndex cellIndex of
        None \<Rightarrow> False
      | Some context \<Rightarrow>
          if outputText context = [] then False
          else evaluateStringPredicate rx (outputText context) m)"
| "evaluatePredicate rx (HasError b) contextForIndex cellIndex =
     (case contextForIndex cellIndex of
        None \<Rightarrow> False
      | Some context \<Rightarrow> b = hasError context)"
| "evaluatePredicate rx (Content m) contextForIndex cellIndex =
     (case contextForIndex cellIndex of
        None \<Rightarrow> False
      | Some context \<Rightarrow> evaluateStringPredicate rx (cell_text context) m)"
| "evaluatePredicate rx (IsEditable b) contextForIndex cellIndex =
     (case contextForIndex cellIndex of
        None \<Rightarrow> False
      | Some context \<Rightarrow> b = editable context)"
| "evaluatePredicate rx (Tags m) contextForIndex cellIndex =
     (case contextForIndex cellIndex of
        None \<Rightarrow> False
      | Some context \<Rightarrow> evaluateArrayPredicate rx (tags context) m)"
| "evaluatePredicate rx Unrecognized contextForIndex cellIndex = False"

text \<open>
  Predicates built from the context-reading variants with \<open>OR\<close> and non-empty
  \<open>AND\<close> only: no negation, no empty conjunction, no nested \<open>NearbyCell\<close>.
\<close>

fun context_bound :: "predicate \<Rightarrow> bool" where
  "context_bound (AND ps) = (ps \<noteq> [] \<and> list_all context_bound ps)"
| "context_bound (OR ps) = list_all context_bound ps"
| "context_bound (NOT p) = False"
| "context_bound (NearbyCell k p) = False"
| "context_bound p = True"

text \<open>Concrete inputs: a lookup over a notebook without cells, and a small regex engine
  that rejects the unbalanced pattern \<open>[\<close> and otherwise tests for containment.\<close>

definition noCells :: "int \<Rightarrow> cellContext option" where
  "noCells = (\<lambda>index. None)"

definition untaggedCell :: cellContext where
  "untaggedCell = \<lparr>type = ''code'', cell_text = ''x = 1'', editable = True, tags = [],
     outputText = [], hasError = False\<rparr>"

definition oneCell :: "int \<Rightarrow> cellContext option" where
  "oneCell = (\<lambda>index. if index = 0 then Some untaggedCell else None)"

definition sampleRegExp :: regexp_ctor where
  "sampleRegExp pattern flags =
     (if pattern = ''['' then Inl SyntaxError else Inr (\<lambda>v. js_includes v pattern))"

section \<open>Rule configurations and their merge (config-rules.ts, schemas/config)\<close>

text \<open>
  \<open>String.prototype.replace(searchString, replaceValue)\<close> with two strings: the first
  occurrence of \<open>searchString\<close> is replaced, and the replacement text is expanded by
  the engine's \<open>GetSubstitution\<close>: \<open>$$\<close> stands for a dollar sign, \<open>$&\<close> for the
  matched text, \<open>$`\<close> for the text before the match and \<open>$'\<close> for the text after
  it. A string pattern has no capture groups, so \<open>$1\<close> and \<open>$<name>\<close> stay as they are.
  \<open>splitAtFirst s p\<close> is the text before and after the first occurrence of \<open>p\<close> in \<open>s\<close>.
\<close>

fun splitAtFirst :: "string \<Rightarrow> string \<Rightarrow> (string \<times> string) option" where
  "splitAtFirst [] p = (if p = [] then Some ([], []) else None)"
| "splitAtFirst (c # cs) p =
     (if startsWith (c # cs) p then Some ([], drop (length p) (c # cs))
      else case splitAtFirst cs p of
             None \<Rightarrow> None
           | Some (preceding, following) \<Rightarrow> Some (c # preceding, following))"

fun getSubstitution :: "string \<Rightarrow> string \<Rightarrow> string \<Rightarrow> string \<Rightarrow> string" where
  "getSubstitution matched preceding following [] = []"
| "getSubstitution matched preceding following [c] = [c]"
| "getSubstitution matched preceding following (c # d # t) =
     (if c = CHR ''$'' \<and> d = CHR ''$''
        then CHR ''$'' # getSubstitution matched preceding following t
      else if c = CHR ''$'' \<and> d = CHR ''&''
        then matched @ getSubstitution matched preceding following t
      else if c = CHR ''$'' \<and> d = CHR 0x60
        then preceding @ getSubstitution matched preceding following t
      else if c = CHR ''$'' \<and> d = CHR 0x27
        then following @ getSubstitution matched preceding following t
      else c # getSubstitution matched preceding following (d # t))"

definition js_replace :: "string \<Rightarrow> string \<Rightarrow> string \<Rightarrow> string" where
  "js_replace s searchString replaceValue =
     (case splitAtFirst s searchString of
        None \<Rightarrow> s
      | Some (preceding, following) \<Rightarrow>
          preceding @ getSubstitution searchString preceding following replaceValue @ following)"

text \<open>
  \<open>RuleConfigOverride\<close>, the output type of \<open>RuleConfigOverrideSchema\<close>, and
  \<open>Partial<RuleConfigOverride>\<close>, where \<open>None\<close> is an absent key.
\<close>

record ruleConfigOverride =
  chatEnabled :: bool
  chatProactive :: bool
  instructorNote :: string
  quickResponses :: "string list"

record partialRuleConfig =
  chatEnabled_opt :: "bool option"
  chatProactive_opt :: "bool option"
  instructorNote_opt :: "string option"
  quickResponses_opt :: "string list option"

text \<open>\<open>RuleConfigOverrideSchema.parse({})\<close>: the defaults of the schema.\<close>

definition baseConfig :: ruleConfigOverride where
  "baseConfig = \<lparr>chatEnabled = False, chatProactive = True, instructorNote = [],
     quickResponses = []\<rparr>"

definition noOverride :: partialRuleConfig where
  "noOverride = \<lparr>chatEnabled_opt = None, chatProactive_opt = None, instructorNote_opt = None,
     quickResponses_opt = None\<rparr>"

definition priorNotesPlaceholder :: string where
  "priorNotesPlaceholder = ''{{prior_notes}}''"

text \<open>\<open>mergeRuleConfigs\<close>: \<open>{...current, ...update, instructorNote}\<close>.\<close>

definition mergeRuleConfigs :: "ruleConfigOverride \<Rightarrow> partialRuleConfig \<Rightarrow> ruleConfigOverride" where
  "mergeRuleConfigs current update =
     (let instructorNote' =
            (case instructorNote_opt update of
               None \<Rightarrow> instructorNote current
             | Some note \<Rightarrow>
                 if js_includes note priorNotesPlaceholder
                 then js_replace note priorNotesPlaceholder (instructorNote current)
                 else note)
      in \<lparr>chatEnabled = (case chatEnabled_opt update of None \<Rightarrow> chatEnabled current | Some b \<Rightarrow> b),
          chatProactive =
            (case chatProactive_opt update of None \<Rightarrow> chatProactive current | Some b \<Rightarrow> b),
          instructorNote = instructorNote',
          quickResponses =
            (case quickResponses_opt update of None \<Rightarrow> quickResponses current | Some q \<Rightarrow> q)\<rparr>)"

section \<open>Notebook cells (config-rules.ts)\<close>

text \<open>
  JSON values, as cell metadata and serialized outputs hold them. The numbers of the
  model are the integers. An object is its list of entries; \<open>undefined\<close> (an absent
  property) is \<open>None\<close> of an option.
\<close>

datatype json =
    JNull
  | JBool bool
  | JNum int
  | JStr string
  | JArr "json list"
  | JObj "(string \<times> json) list"

text \<open>
  What the engine provides and the repository does not define: the regex
  constructor, the conversion of a number to a string, and \<open>JSON.stringify\<close>.
\<close>

record js_host =
  new_RegExp :: regexp_ctor
  Number_toString :: "int \<Rightarrow> string"
  JSON_stringify :: "json \<Rightarrow> string"

definition newline :: string where
  "newline = [CHR 0x0A]"

text \<open>\<open>Array.prototype.join\<close> on strings.\<close>

fun js_join :: "string \<Rightarrow> string list \<Rightarrow> string" where
  "js_join sep [] = []"
| "js_join sep [x] = x"
| "js_join sep (x # y # ys) = x @ sep @ js_join sep (y # ys)"

text \<open>\<open>Boolean(v)\<close> and \<open>!v\<close> on a JSON value.\<close>

fun js_truthy :: "json \<Rightarrow> bool" where
  "js_truthy JNull = False"
| "js_truthy (JBool b) = b"
| "js_truthy (JNum n) = (n \<noteq> 0)"
| "js_truthy (JStr s) = (s \<noteq> [])"
| "js_truthy (JArr xs) = True"
| "js_truthy (JObj kvs) = True"

text \<open>Reading a property: only an object of the model has the keys read here.\<close>

fun get_prop :: "json \<Rightarrow> string \<Rightarrow> json option" where
  "get_prop (JObj kvs) key = map_of kvs key"
| "get_prop v key = None"

text \<open>
  \<open>String(v)\<close>. The elements of an array are joined with a comma, \<open>null\<close> elements
  as empty strings.
\<close>

fun js_String :: "js_host \<Rightarrow> json \<Rightarrow> string" where
  "js_String host JNull = ''null''"
| "js_String host (JBool b) = (if b then ''true'' else ''false'')"
| "js_String host (JNum n) = Number_toString host n"
| "js_String host (JStr s) = s"
| "js_String host (JArr xs) =
     js_join '','' (map (\<lambda>x. if x = JNull then [] else js_String host x) xs)"
| "js_String host (JObj kvs) = ''[object Object]''"

text \<open>\<open>Array.isArray(v) ? v.join('\n') : String(v)\<close>.\<close>

fun linesOrString :: "js_host \<Rightarrow> json \<Rightarrow> string" where
  "linesOrString host (JArr xs) =
     js_join newline (map (\<lambda>x. if x = JNull then [] else js_String host x) xs)"
| "linesOrString host v = js_String host v"

text \<open>\<open>a ?? b\<close>.\<close>

fun nullish_coalesce :: "json option \<Rightarrow> json option \<Rightarrow> json option" where
  "nullish_coalesce None b = b"
| "nullish_coalesce (Some JNull) b = b"
| "nullish_coalesce (Some v) b = Some v"

text \<open>
  \<open>extractOutputText\<close>, applied to the serialized form of an output (its \<open>toJSON()\<close>).
  \<open>typeof data === 'object' && data !== null\<close> holds for objects and arrays; an
  array has neither of the two keys.
\<close>

definition extractOutputText :: "js_host \<Rightarrow> json \<Rightarrow> string" where
  "extractOutputText host json =
     (if \<not> js_truthy json then []
      else
        let data = get_prop json ''data'';
            textPlain =
              (case data of
                 Some (JObj kvs) \<Rightarrow>
                   nullish_coalesce (get_prop (JObj kvs) ''text/plain'') (get_prop (JObj kvs) ''text'')
               | Some (JArr xs) \<Rightarrow>
                   nullish_coalesce (get_prop (JArr xs) ''text/plain'') (get_prop (JArr xs) ''text'')
               | _ \<Rightarrow> None)
        in case textPlain of
             Some v \<Rightarrow> linesOrString host v
           | None \<Rightarrow>
               (case get_prop json ''text'' of
                  Some textValue \<Rightarrow> linesOrString host textValue
                | None \<Rightarrow>
                    (case get_prop json ''evalue'' of
                       Some evalue \<Rightarrow> js_String host evalue
                     | None \<Rightarrow> JSON_stringify host json)))"

text \<open>A cell model: its type, its source, its metadata and its outputs (serialized).\<close>

record cell =
  model_type :: string
  source :: string
  metadata :: "string \<rightharpoonup> json"
  outputs :: "json list"

definition extractOutputsAsText :: "js_host \<Rightarrow> cell \<Rightarrow> string" where
  "extractOutputsAsText host c =
     js_join newline (filter (\<lambda>s. s \<noteq> []) (map (extractOutputText host) (outputs c)))"

text \<open>
  \<open>detectOutputError\<close>: the output kind is \<open>output_type\<close> of the serialized output
  (the \<open>type\<close> of an output model is the same field).
\<close>

definition detectOutputError :: "cell \<Rightarrow> bool" where
  "detectOutputError c = list_ex (\<lambda>json. get_prop json ''output_type'' = Some (JStr ''error'')) (outputs c)"

fun stringTags :: "json list \<Rightarrow> string list" where
  "stringTags [] = []"
| "stringTags (JStr s # xs) = s # stringTags xs"
| "stringTags (v # xs) = stringTags xs"

definition buildCellContext :: "js_host \<Rightarrow> cell \<Rightarrow> cellContext" where
  "buildCellContext host c =
     (let ty = (if model_type c = ''code'' then ''code''
                else if model_type c = ''markdown'' then ''markdown'' else ''unknown'');
          edit = (case metadata c ''editable'' of None \<Rightarrow> True | Some v \<Rightarrow> js_truthy v);
          tgs = stringTags (case metadata c ''tags'' of Some (JArr xs) \<Rightarrow> xs | _ \<Rightarrow> [])
      in \<lparr>type = ty, cell_text = source c, editable = edit, tags = tgs,
          outputText = (if ty = ''code'' then extractOutputsAsText host c else []),
          hasError = (if ty = ''code'' then detectOutputError c else False)\<rparr>)"

text \<open>
  The extraction as C7 words it: \<open>data["text/plain"]\<close>, then the direct \<open>text\<close>
  field, then \<open>evalue\<close>, then the serialized item.
\<close>

definition extractOutputText_claimed :: "js_host \<Rightarrow> json \<Rightarrow> string" where
  "extractOutputText_claimed host item =
     (case (case get_prop item ''data'' of None \<Rightarrow> None | Some d \<Rightarrow> get_prop d ''text/plain'') of
        Some v \<Rightarrow> linesOrString host v
      | None \<Rightarrow>
          (case get_prop item ''text'' of
             Some v \<Rightarrow> linesOrString host v
           | None \<Rightarrow>
               (case get_prop item ''evalue'' of
                  Some e \<Rightarrow> js_String host e
                | None \<Rightarrow> JSON_stringify host item)))"

text \<open>
  The extraction as a precedence list: the first defined candidate among
  \<open>data["text/plain"]\<close> (when not \<open>null\<close>), \<open>data.text\<close> and the direct \<open>text\<close>
  field, then \<open>evalue\<close>, then the serialized item; a falsy item gives the empty string.
\<close>

definition dataEntry :: "json \<Rightarrow> string \<Rightarrow> json option" where
  "dataEntry item key = (case get_prop item ''data'' of None \<Rightarrow> None | Some d \<Rightarrow> get_prop d key)"

definition textCandidates :: "json \<Rightarrow> json option list" where
  "textCandidates item =
     [if dataEntry item ''text/plain'' = Some JNull then None else dataEntry item ''text/plain'',
      dataEntry item ''text'',
      get_prop item ''text'']"

definition extractOutputText_precedence :: "js_host \<Rightarrow> json \<Rightarrow> string" where
  "extractOutputText_precedence host item =
     (if \<not> js_truthy item then []
      else case List.find (\<lambda>c. c \<noteq> None) (textCandidates item) of
             Some (Some v) \<Rightarrow> linesOrString host v
           | _ \<Rightarrow>
               (case get_prop item ''evalue'' of
                  Some e \<Rightarrow> js_String host e
                | None \<Rightarrow> JSON_stringify host item))"

text \<open>Concrete inputs: a host with decimal numbers and a serializer for objects of
  plain strings, and a code cell whose output has a \<open>data.text\<close> entry.\<close>

fun showNat :: "nat \<Rightarrow> string" where
  "showNat n =
     (if n < 10 then [char_of (48 + n)] else showNat (n div 10) @ [char_of (48 + n mod 10)])"

definition showInt :: "int \<Rightarrow> string" where
  "showInt n = (if n < 0 then CHR ''-'' # showNat (nat (- n)) else showNat (nat n))"

fun sampleStringify :: "json \<Rightarrow> string" where
  "sampleStringify JNull = ''null''"
| "sampleStringify (JBool b) = (if b then ''true'' else ''false'')"
| "sampleStringify (JNum n) = showInt n"
| "sampleStringify (JStr s) = [CHR 0x22] @ s @ [CHR 0x22]"
| "sampleStringify (JArr xs) = ''['' @ js_join '','' (map sampleStringify xs) @ '']''"
| "sampleStringify (JObj kvs) =
     ''{'' @ js_join '','' (map (\<lambda>(k, v). [CHR 0x22] @ k @ [CHR 0x22] @ '':'' @ sampleStringify v) kvs)
       @ ''}''"

definition sampleHost :: js_host where
  "sampleHost = \<lparr>new_RegExp = sampleRegExp, Number_toString = showInt,
     JSON_stringify = sampleStringify\<rparr>"

definition displayOutput :: json where
  "displayOutput = JObj [(''output_type'', JStr ''display_data''),
     (''data'', JObj [(''text'', JStr ''inner'')]), (''text'', JStr ''outer'')]"

definition streamOutput :: json where
  "streamOutput = JObj [(''output_type'', JStr ''stream''), (''name'', JStr ''stdout''),
     (''text'', JArr [JStr ''a'', JStr ''b''])]"

definition displayCell :: cell where
  "displayCell = \<lparr>model_type = ''code'', source = ''show()'', metadata = Map.empty,
     outputs = [displayOutput]\<rparr>"

definition streamCell :: cell where
  "streamCell = \<lparr>model_type = ''code'', source = ''print(1)'', metadata = Map.empty,
     outputs = [streamOutput, JNull, JObj [(''evalue'', JStr ''boom'')]]\<rparr>"

section \<open>Rule resolution (config-rules.ts)\<close>

text \<open>
  A rule of the plugin configuration: \<open>when\<close> (absent: the rule always applies) and
  \<open>config\<close>.
\<close>

record rule =
  rule_when :: "predicate option"
  rule_config :: partialRuleConfig

text \<open>
  \<open>RuleConfigOverrideSchema.partial().parse\<close> on a typed partial configuration. Every
  field of the schema has a default, and the library applies the default of a field
  that is unset also under \<open>partial()\<close>; the comment in \<open>applyConfigRules\<close> (``so that
  Zod defaults for unset fields do not clobber values already established by
  rules'') relies on it.
\<close>

definition withDefaults :: "partialRuleConfig \<Rightarrow> partialRuleConfig" where
  "withDefaults p =
     \<lparr>chatEnabled_opt = Some (case chatEnabled_opt p of None \<Rightarrow> False | Some b \<Rightarrow> b),
      chatProactive_opt = Some (case chatProactive_opt p of None \<Rightarrow> True | Some b \<Rightarrow> b),
      instructorNote_opt = Some (case instructorNote_opt p of None \<Rightarrow> [] | Some s \<Rightarrow> s),
      quickResponses_opt = Some (case quickResponses_opt p of None \<Rightarrow> [] | Some q \<Rightarrow> q)\<rparr>"

text \<open>
  The fields of the schema on a raw JSON value: \<open>z.boolean()\<close>, \<open>z.string()\<close>,
  \<open>z.array(z.string())\<close>. The outer \<open>None\<close> is a validation issue, the inner one an
  absent key.
\<close>

fun booleanField :: "json option \<Rightarrow> bool option option" where
  "booleanField None = Some None"
| "booleanField (Some (JBool b)) = Some (Some b)"
| "booleanField (Some v) = None"

fun stringField :: "json option \<Rightarrow> string option option" where
  "stringField None = Some None"
| "stringField (Some (JStr s)) = Some (Some s)"
| "stringField (Some v) = None"

fun stringItems :: "json list \<Rightarrow> string list option" where
  "stringItems [] = Some []"
| "stringItems (JStr s # xs) = (case stringItems xs of None \<Rightarrow> None | Some ss \<Rightarrow> Some (s # ss))"
| "stringItems (v # xs) = None"

fun stringArrayField :: "json option \<Rightarrow> string list option option" where
  "stringArrayField None = Some None"
| "stringArrayField (Some (JArr xs)) =
     (case stringItems xs of None \<Rightarrow> None | Some ss \<Rightarrow> Some (Some ss))"
| "stringArrayField (Some v) = None"

text \<open>
  \<open>RuleConfigOverrideSchema.partial().safeParse(raw)\<close> on the entries of a raw
  object: \<open>None\<close> when a field has an issue (no success), otherwise the parsed
  data. Unknown keys are dropped.
\<close>

definition safeParse :: "(string \<times> json) list \<Rightarrow> partialRuleConfig option" where
  "safeParse raw =
     (case (booleanField (map_of raw ''chatEnabled''), booleanField (map_of raw ''chatProactive''),
            stringField (map_of raw ''instructorNote''),
            stringArrayField (map_of raw ''quickResponses'')) of
        (Some a, Some b, Some c, Some d) \<Rightarrow>
          Some (withDefaults \<lparr>chatEnabled_opt = a, chatProactive_opt = b, instructorNote_opt = c,
                  quickResponses_opt = d\<rparr>)
      | _ \<Rightarrow> None)"

text \<open>
  The loop over \<open>Object.keys(raw)\<close>: a key of the schema that is present in the raw
  metadata takes its value from the parsed data.
\<close>

definition explicitOverride :: "(string \<times> json) list \<Rightarrow> partialRuleConfig \<Rightarrow> partialRuleConfig" where
  "explicitOverride raw parsed =
     \<lparr>chatEnabled_opt =
        (if map_of raw ''chatEnabled'' \<noteq> None then chatEnabled_opt parsed else None),
      chatProactive_opt =
        (if map_of raw ''chatProactive'' \<noteq> None then chatProactive_opt parsed else None),
      instructorNote_opt =
        (if map_of raw ''instructorNote'' \<noteq> None then instructorNote_opt parsed else None),
      quickResponses_opt =
        (if map_of raw ''quickResponses'' \<noteq> None then quickResponses_opt parsed else None)\<rparr>"

text \<open>\<open>notebookModel.cells.get(index)\<close> and the closure \<open>getCellContext\<close> (its cache
  holds what \<open>buildCellContext\<close> returns and does not change a result).\<close>

definition cells_get :: "cell list \<Rightarrow> int \<Rightarrow> cell option" where
  "cells_get cells index =
     (if 0 \<le> index \<and> index < int (length cells) then Some (cells ! nat index) else None)"

definition getCellContext :: "js_host \<Rightarrow> cell list \<Rightarrow> int \<Rightarrow> cellContext option" where
  "getCellContext host cells index =
     (if index < 0 \<or> index \<ge> int (length cells) then None
      else case cells_get cells index of
             None \<Rightarrow> None
           | Some c \<Rightarrow> Some (buildCellContext host c))"

definition applyRule ::
  "js_host \<Rightarrow> cell list \<Rightarrow> int \<Rightarrow> ruleConfigOverride \<Rightarrow> rule \<Rightarrow> ruleConfigOverride" where
  "applyRule host cells cellIndex mergedConfig r =
     (let parsedRuleConfig = withDefaults (rule_config r)
      in if (case rule_when r of
               None \<Rightarrow> True
             | Some p \<Rightarrow>
                 evaluatePredicate (new_RegExp host) p (getCellContext host cells) cellIndex)
         then mergeRuleConfigs mergedConfig parsedRuleConfig
         else mergedConfig)"

definition applyConfigRules ::
  "js_host \<Rightarrow> cell list \<Rightarrow> int \<Rightarrow> rule list \<Rightarrow> ruleConfigOverride" where
  "applyConfigRules host cells cellIndex configRules =
     (let mergedConfig = foldl (applyRule host cells cellIndex) baseConfig configRules
      in case cells_get cells cellIndex of
           None \<Rightarrow> mergedConfig
         | Some c \<Rightarrow>
             (case metadata c ''jupytutor'' of
                Some (JObj raw) \<Rightarrow>
                  (case safeParse raw of
                     Some parsed \<Rightarrow> mergeRuleConfigs mergedConfig (explicitOverride raw parsed)
                   | None \<Rightarrow> mergedConfig)
              | _ \<Rightarrow> mergedConfig))"

text \<open>
  A cell-level override that is applied: a non-null, non-array object that passes
  the schema as a partial configuration.
\<close>

fun validOverride :: "json \<Rightarrow> bool" where
  "validOverride (JObj raw) = (safeParse raw \<noteq> None)"
| "validOverride v = False"

definition withoutOverride :: "cell \<Rightarrow> cell" where
  "withoutOverride c = c\<lparr>metadata := (metadata c)(''jupytutor'' := None)\<rparr>"

text \<open>Concrete inputs: the rule of the test suite, and cells with invalid overrides.\<close>

definition ruleNote :: rule where
  "ruleNote = \<lparr>rule_when = None,
     rule_config = noOverride\<lparr>chatEnabled_opt := Some True,
       instructorNote_opt := Some ''Rule note''\<rparr>\<rparr>"

definition badTypeCell :: cell where
  "badTypeCell = \<lparr>model_type = ''code'', source = ''x'',
     metadata = [''jupytutor'' \<mapsto> JObj [(''instructorNote'', JStr ''Cell note''),
                                        (''chatEnabled'', JStr ''yes'')]],
     outputs = []\<rparr>"

definition notObjectCell :: cell where
  "notObjectCell = \<lparr>model_type = ''code'', source = ''x'',
     metadata = [''jupytutor'' \<mapsto> JStr ''not an object''], outputs = []\<rparr>"

section \<open>The context retriever (globalNotebookContextRetrieval)\<close>

text \<open>
  \<open>ContextRetrievalConfig\<close>, with the defaults of the constructor already filled in
  (\<open>whitelistedURLs\<close> may be \<open>null\<close>).
\<close>

record contextRetrievalConfig =
  cfg_sourceLinks :: "string list"
  cfg_whitelistedURLs :: "string list option"
  cfg_blacklistedURLs :: "string list"
  cfg_jupyterbookURLs :: "string list"
  cfg_attemptJupyterbookLinkExpansion :: bool
  cfg_debug :: bool

text \<open>
  The retriever runs on the engine's event loop. Its state holds the private fields
  of the class, whether \<open>_loadedPromise\<close> is settled, whether the timer of
  \<open>_softTimeoutPromise\<close> has fired, and where the background work is suspended: at
  the \<open>await\<close> of the link expansion, at the \<open>await Promise.all(...)\<close> of the page
  fetches inside \<open>scrapeSourceLinks\<close>, or nowhere.
\<close>

datatype suspended = AwaitExpansion | AwaitFetches | NotSuspended

record retriever =
  stored_context :: "string option"
  stored_sourceLinks :: "string list"
  blacklistedURLs :: "string list"
  whitelistedURLs :: "string list"
  loadedSettled :: bool
  softTimerFired :: bool
  background :: suspended

text \<open>
  \<open>scrapePageText\<close>: the network is a function from a URL to the extracted text of
  its page, \<open>None\<close> when the page cannot be fetched.
\<close>

definition scrapePageText :: "(string \<Rightarrow> string option) \<Rightarrow> string \<Rightarrow> string option" where
  "scrapePageText pageText pageUrl =
     (case pageText pageUrl of
        None \<Rightarrow> None
      | Some t \<Rightarrow> Some (''[LINK] '' @ pageUrl @ '' [/LINK]'' @ newline @ t))"

definition isBlacklisted :: "retriever \<Rightarrow> string \<Rightarrow> bool" where
  "isBlacklisted r url = list_ex (\<lambda>blacklistedURL. js_includes url blacklistedURL) (blacklistedURLs r)"

definition isWhitelisted :: "retriever \<Rightarrow> string \<Rightarrow> bool" where
  "isWhitelisted r url = list_ex (\<lambda>whitelistedURL. js_includes url whitelistedURL) (whitelistedURLs r)"

text \<open>
  \<open>scrapeSourceLinks\<close> up to its \<open>await\<close>: the early return without links, the two
  filters on the stored list, and the start of the fetches.
\<close>

definition scrapeSourceLinks_begin :: "retriever \<Rightarrow> retriever" where
  "scrapeSourceLinks_begin r =
     (if stored_sourceLinks r = [] then r\<lparr>stored_context := None, background := NotSuspended\<rparr>
      else
        let r1 = (if whitelistedURLs r \<noteq> []
                  then r\<lparr>stored_sourceLinks := filter (isWhitelisted r) (stored_sourceLinks r)\<rparr>
                  else r);
            r2 = (if blacklistedURLs r1 \<noteq> []
                  then r1\<lparr>stored_sourceLinks :=
                         filter (\<lambda>url. \<not> isBlacklisted r1 url) (stored_sourceLinks r1)\<rparr>
                  else r1)
        in r2\<lparr>background := AwaitFetches\<rparr>)"

text \<open>\<open>scrapeSourceLinks\<close> after its \<open>await\<close>, once every fetch has settled.\<close>

definition scrapeSourceLinks_resume :: "(string \<Rightarrow> string option) \<Rightarrow> retriever \<Rightarrow> retriever" where
  "scrapeSourceLinks_resume pageText r =
     (let scrapedTexts =
            js_join (newline @ newline)
              (map the (filter (\<lambda>t. t \<noteq> None) (map (scrapePageText pageText) (stored_sourceLinks r))))
      in r\<lparr>stored_context := (if scrapedTexts \<noteq> [] then Some scrapedTexts else None),
           background := NotSuspended\<rparr>)"

text \<open>
  The constructor. The body of the asynchronous function behind \<open>_loadedPromise\<close>
  runs at once up to its first \<open>await\<close>. The call \<open>this.scrapeSourceLinks()\<close> is not
  awaited: the body ends, and the promise settles, when that call has reached its
  own \<open>await\<close>.
\<close>

definition construct :: "contextRetrievalConfig \<Rightarrow> retriever" where
  "construct cfg =
     (let r = \<lparr>stored_context = None, stored_sourceLinks = cfg_sourceLinks cfg,
                blacklistedURLs = cfg_blacklistedURLs cfg,
                whitelistedURLs = (case cfg_whitelistedURLs cfg of None \<Rightarrow> [] | Some w \<Rightarrow> w),
                loadedSettled = False, softTimerFired = False, background = NotSuspended\<rparr>
      in if cfg_debug cfg then r\<lparr>loadedSettled := True\<rparr>
         else if cfg_attemptJupyterbookLinkExpansion cfg then r\<lparr>background := AwaitExpansion\<rparr>
         else (scrapeSourceLinks_begin r)\<lparr>loadedSettled := True\<rparr>)"

text \<open>
  What the event loop delivers: the link expansion has settled (with the expanded
  list, or \<open>None\<close> when it threw and \<open>_expandJupyterBookLinksAsync\<close> caught it), the
  fetches have settled, the soft timer has fired. An event that nothing waits for
  changes nothing.
\<close>

datatype event =
    ExpansionSettled "string list option"
  | FetchesSettled "string \<Rightarrow> string option"
  | SoftTimeoutElapsed

fun deliver :: "retriever \<Rightarrow> event \<Rightarrow> retriever" where
  "deliver r (ExpansionSettled expanded) =
     (if background r = AwaitExpansion
      then (scrapeSourceLinks_begin
              (case expanded of
                 None \<Rightarrow> r\<lparr>background := NotSuspended\<rparr>
               | Some links \<Rightarrow> r\<lparr>stored_sourceLinks := links, background := NotSuspended\<rparr>))
           \<lparr>loadedSettled := True\<rparr>
      else r)"
| "deliver r (FetchesSettled pageText) =
     (if background r = AwaitFetches then scrapeSourceLinks_resume pageText r else r)"
| "deliver r SoftTimeoutElapsed = r\<lparr>softTimerFired := True\<rparr>"

text \<open>
  The readers await \<open>_loadedPromise\<close> (enforcing) or \<open>_softTimeoutPromise\<close>, the race
  of \<open>_loadedPromise\<close> with the timer; \<open>None\<close> is a reader that still waits.
\<close>

definition awaited :: "bool \<Rightarrow> retriever \<Rightarrow> bool" where
  "awaited enforcing r = (if enforcing then loadedSettled r else loadedSettled r \<or> softTimerFired r)"

definition getContext :: "bool \<Rightarrow> retriever \<Rightarrow> string option option" where
  "getContext enforcing r = (if awaited enforcing r then Some (stored_context r) else None)"

definition getSourceLinks :: "bool \<Rightarrow> retriever \<Rightarrow> string list option" where
  "getSourceLinks enforcing r = (if awaited enforcing r then Some (stored_sourceLinks r) else None)"

text \<open>Concrete inputs: one source link, no expansion, no debug mode, and a network
  that serves the page.\<close>

definition estimationUrl :: string where
  "estimationUrl = ''https://inferentialthinking.com/chapters/13/Estimation.html''"

definition oneLinkConfig :: contextRetrievalConfig where
  "oneLinkConfig = \<lparr>cfg_sourceLinks = [estimationUrl], cfg_whitelistedURLs = None,
     cfg_blacklistedURLs = [''data8.org'', ''berkeley.edu'', ''gradescope.com''],
     cfg_jupyterbookURLs = [], cfg_attemptJupyterbookLinkExpansion = False, cfg_debug = False\<rparr>"

definition servedPages :: "string \<Rightarrow> string option" where
  "servedPages url = (if url = estimationUrl then Some ''Estimation'' else None)"

definition mixedLinksConfig :: contextRetrievalConfig where
  "mixedLinksConfig = \<lparr>cfg_sourceLinks = [''https://www.data8.org/fa24/reference/'', estimationUrl,
       ''https://example.org/notes''],
     cfg_whitelistedURLs = Some [''inferentialthinking.com'', ''data8.org''],
     cfg_blacklistedURLs = [''data8.org'', ''berkeley.edu'', ''gradescope.com''],
     cfg_jupyterbookURLs = [], cfg_attemptJupyterbookLinkExpansion = False, cfg_debug = True\<rparr>"

section \<open>Link expansion (globalNotebookContextRetrieval)\<close>

text \<open>
  A parsed URL, as the engine's \<open>URL\<close> object holds it: scheme, authority (host and
  port), path, query and fragment. The model covers URLs with an authority.
  \<open>new URL(s)\<close> is a parameter \<open>parseURL\<close>; \<open>None\<close> is the \<open>TypeError\<close> it throws.
\<close>

record url =
  url_scheme :: string
  url_authority :: string
  url_path :: string
  url_query :: "string option"
  url_fragment :: "string option"

definition href :: "url \<Rightarrow> string" where
  "href u = url_scheme u @ ''://'' @ url_authority u @ url_path u
     @ (case url_query u of None \<Rightarrow> [] | Some q \<Rightarrow> ''?'' @ q)
     @ (case url_fragment u of None \<Rightarrow> [] | Some f \<Rightarrow> ''#'' @ f)"

text \<open>\<open>normalizeUrl\<close>; \<open>urlObj.hash = ''\<close> removes the fragment.\<close>

definition normalizeUrl :: "(string \<Rightarrow> url option) \<Rightarrow> string \<Rightarrow> string" where
  "normalizeUrl parseURL u =
     (case parseURL u of
        None \<Rightarrow> u
      | Some urlObj \<Rightarrow>
          let o1 = urlObj\<lparr>url_fragment := None\<rparr>;
              o2 = (if length (url_path o1) > 1 \<and> last (url_path o1) = CHR ''/''
                    then o1\<lparr>url_path := butlast (url_path o1)\<rparr> else o1)
          in href o2)"

text \<open>\<open>new URL(a).pathname\<close>.\<close>

definition pathname :: "(string \<Rightarrow> url option) \<Rightarrow> string \<Rightarrow> string option" where
  "pathname parseURL a = (case parseURL a of None \<Rightarrow> None | Some urlObj \<Rightarrow> Some (url_path urlObj))"

text \<open>
  The three patterns on a path. \<open>chaptersAt\<close> matches \<open>\/chapters\/(\d+)\<close> at the start
  of a text and gives the digits and the rest; \<open>subsectionAt\<close> matches \<open>\/(\d+)\<close>
  there; \<open>firstMatch\<close> tries the positions of the text from the left, as
  \<open>String.prototype.match\<close> does.
\<close>

definition isDigit :: "char \<Rightarrow> bool" where
  "isDigit c = (c \<in> set ''0123456789'')"

definition chaptersAt :: "string \<Rightarrow> (string \<times> string) option" where
  "chaptersAt s =
     (if startsWith s ''/chapters/''
      then let t = drop 10 s; d = takeWhile isDigit t
           in if d = [] then None else Some (d, dropWhile isDigit t)
      else None)"

fun subsectionAt :: "string \<Rightarrow> string option" where
  "subsectionAt [] = None"
| "subsectionAt (c # r) =
     (if c = CHR ''/'' \<and> takeWhile isDigit r \<noteq> [] then Some (takeWhile isDigit r) else None)"

fun firstMatch :: "(string \<Rightarrow> 'a option) \<Rightarrow> string \<Rightarrow> 'a option" where
  "firstMatch m [] = m []"
| "firstMatch m (c # cs) = (case m (c # cs) of Some x \<Rightarrow> Some x | None \<Rightarrow> firstMatch m cs)"

text \<open>\<open>/\/chapters\/(\d+)/\<close>: the first group.\<close>

definition chapterMatch :: "string \<Rightarrow> string option" where
  "chapterMatch path =
     firstMatch (\<lambda>s. case chaptersAt s of None \<Rightarrow> None | Some (ch, rest) \<Rightarrow> Some ch) path"

text \<open>\<open>/\/chapters\/(\d+)\/(\d+)/\<close>: the second group.\<close>

definition subsectionMatch :: "string \<Rightarrow> string option" where
  "subsectionMatch path =
     firstMatch (\<lambda>s. case chaptersAt s of None \<Rightarrow> None | Some (ch, rest) \<Rightarrow> subsectionAt rest) path"

text \<open>\<open>/\/chapters\/(\d+)(?:\/(\d+))?/\<close>: the first group and the optional second one.\<close>

definition chapterSubsectionMatch :: "string \<Rightarrow> (string \<times> string option) option" where
  "chapterSubsectionMatch path =
     firstMatch (\<lambda>s. case chaptersAt s of None \<Rightarrow> None
                    | Some (ch, rest) \<Rightarrow> Some (ch, subsectionAt rest)) path"

text \<open>\<open>parseInt\<close> on a text of decimal digits.\<close>

definition digitValue :: "char \<Rightarrow> int" where
  "digitValue c = (case map_of (zip ''0123456789'' [0, 1, 2, 3, 4, 5, 6, 7, 8, 9]) c of
                    None \<Rightarrow> 0 | Some d \<Rightarrow> d)"

definition parseInt :: "string \<Rightarrow> int" where
  "parseInt s = foldl (\<lambda>n c. 10 * n + digitValue c) 0 s"

text \<open>
  \<open>Array.prototype.sort\<close> with a comparator: a stable sort, here by insertion. A
  comparator that throws (\<open>None\<close>) ends the sort with its exception.
\<close>

fun insertSorted :: "('a \<Rightarrow> 'a \<Rightarrow> int option) \<Rightarrow> 'a \<Rightarrow> 'a list \<Rightarrow> 'a list option" where
  "insertSorted cmp x [] = Some [x]"
| "insertSorted cmp x (y # ys) =
     (case cmp x y of
        None \<Rightarrow> None
      | Some d \<Rightarrow>
          if d \<le> 0 then Some (x # y # ys)
          else (case insertSorted cmp x ys of None \<Rightarrow> None | Some zs \<Rightarrow> Some (y # zs)))"

fun js_sort :: "('a \<Rightarrow> 'a \<Rightarrow> int option) \<Rightarrow> 'a list \<Rightarrow> 'a list option" where
  "js_sort cmp [] = Some []"
| "js_sort cmp (x # xs) =
     (case js_sort cmp xs of None \<Rightarrow> None | Some sortedRest \<Rightarrow> insertSorted cmp x sortedRest)"

text \<open>
  The comparator of \<open>sortChapterSectionLinks\<close>; \<open>localeCompare\<close> is the engine's
  \<open>String.prototype.localeCompare\<close>.
\<close>

definition chapterSectionOrder ::
  "(string \<Rightarrow> url option) \<Rightarrow> (string \<Rightarrow> string \<Rightarrow> int) \<Rightarrow> string \<Rightarrow> string \<Rightarrow> int option" where
  "chapterSectionOrder parseURL localeCompare a b =
     (case (pathname parseURL a, pathname parseURL b) of
        (Some aPath, Some bPath) \<Rightarrow>
          let aChapter = (case chapterMatch aPath of None \<Rightarrow> 0 | Some d \<Rightarrow> parseInt d);
              aSubsection = (case subsectionMatch aPath of None \<Rightarrow> 0 | Some d \<Rightarrow> parseInt d);
              bChapter = (case chapterMatch bPath of None \<Rightarrow> 0 | Some d \<Rightarrow> parseInt d);
              bSubsection = (case subsectionMatch bPath of None \<Rightarrow> 0 | Some d \<Rightarrow> parseInt d)
          in Some (if aChapter \<noteq> bChapter then aChapter - bChapter
                   else if aSubsection \<noteq> bSubsection then aSubsection - bSubsection
                   else localeCompare aPath bPath)
      | _ \<Rightarrow> None)"

definition sortChapterSectionLinks ::
  "(string \<Rightarrow> url option) \<Rightarrow> (string \<Rightarrow> string \<Rightarrow> int) \<Rightarrow> string list \<Rightarrow> string list option" where
  "sortChapterSectionLinks parseURL localeCompare links =
     js_sort (chapterSectionOrder parseURL localeCompare) links"

text \<open>
  The end of \<open>findJupyterBookLinks\<close>, from the chapter links collected on the page:
  \<open>[...new Set(links)]\<close> keeps the first occurrence of each link, the links are
  sorted, and anything thrown gives the empty list.
\<close>

fun uniqueLinks :: "string list \<Rightarrow> string list" where
  "uniqueLinks [] = []"
| "uniqueLinks (x # xs) = x # filter (\<lambda>y. y \<noteq> x) (uniqueLinks xs)"

definition findJupyterBookLinks_sorted ::
  "(string \<Rightarrow> url option) \<Rightarrow> (string \<Rightarrow> string \<Rightarrow> int) \<Rightarrow> string list \<Rightarrow> string list" where
  "findJupyterBookLinks_sorted parseURL localeCompare links =
     (case sortChapterSectionLinks parseURL localeCompare (uniqueLinks links) of
        None \<Rightarrow> []
      | Some sortedLinks \<Rightarrow> sortedLinks)"

text \<open>The comparator inside the loop of \<open>expandJupyterBookLinks\<close>.\<close>

definition expandedOrder ::
  "(string \<Rightarrow> url option) \<Rightarrow> (string \<Rightarrow> string \<Rightarrow> int) \<Rightarrow> string \<Rightarrow> string \<Rightarrow> int option" where
  "expandedOrder parseURL localeCompare a b =
     (case (pathname parseURL a, pathname parseURL b) of
        (Some aPath, Some bPath) \<Rightarrow>
          (case (chapterSubsectionMatch aPath, chapterSubsectionMatch bPath) of
             (Some (a1, a2), Some (b1, b2)) \<Rightarrow>
               let aChapter = parseInt a1;
                   bChapter = parseInt b1;
                   aSubsection = (case a2 of None \<Rightarrow> 0 | Some d \<Rightarrow> parseInt d);
                   bSubsection = (case b2 of None \<Rightarrow> 0 | Some d \<Rightarrow> parseInt d)
               in Some (if aChapter \<noteq> bChapter then aChapter - bChapter
                        else aSubsection - bSubsection)
           | _ \<Rightarrow> Some (localeCompare aPath bPath))
      | _ \<Rightarrow> None)"

text \<open>
  \<open>expandJupyterBookLinks\<close>. \<open>collected\<close> gives, for the URL of a book page, the
  chapter links that \<open>findJupyterBookLinks\<close> collects from it (none when the page
  cannot be fetched). The loop carries \<open>result\<close>, \<open>seenUrls\<close> and \<open>jupyterBookIndex\<close>;
  \<open>None\<close> is an exception that leaves the function.
\<close>

record walk =
  result :: "string list"
  seenUrls :: "string set"
  jupyterBookIndex :: nat

definition pushUnseen :: "(string \<Rightarrow> url option) \<Rightarrow> walk \<Rightarrow> string \<Rightarrow> walk" where
  "pushUnseen parseURL w link =
     (let normalizedLink = normalizeUrl parseURL link
      in if normalizedLink \<in> seenUrls w then w
         else w\<lparr>result := result w @ [link], seenUrls := insert normalizedLink (seenUrls w)\<rparr>)"

definition isJupyterBookLink :: "string list \<Rightarrow> string \<Rightarrow> bool" where
  "isJupyterBookLink jupyterbookURLs link =
     list_ex (\<lambda>jupyterbookURL. js_includes link jupyterbookURL) jupyterbookURLs"

definition visitLink ::
  "(string \<Rightarrow> url option) \<Rightarrow> (string \<Rightarrow> string \<Rightarrow> int) \<Rightarrow> string list \<Rightarrow> string list list
     \<Rightarrow> walk \<Rightarrow> string \<Rightarrow> walk option" where
  "visitLink parseURL localeCompare jupyterbookURLs allLinks w originalLink =
     (if isJupyterBookLink jupyterbookURLs originalLink
      then
        let normalizedOriginalLink = normalizeUrl parseURL originalLink;
            w1 = pushUnseen parseURL w originalLink;
            expandedLinksForThisUrl =
              (if jupyterBookIndex w1 < length allLinks then allLinks ! jupyterBookIndex w1 else []);
            uniqueExpandedLinks =
              filter (\<lambda>link. normalizeUrl parseURL link \<noteq> normalizedOriginalLink
                            \<and> normalizeUrl parseURL link \<notin> seenUrls w1)
                expandedLinksForThisUrl
        in case js_sort (expandedOrder parseURL localeCompare) uniqueExpandedLinks of
             None \<Rightarrow> None
           | Some sortedLinks \<Rightarrow>
               Some ((foldl (pushUnseen parseURL) w1 sortedLinks)
                       \<lparr>jupyterBookIndex := jupyterBookIndex w1 + 1\<rparr>)
      else Some (pushUnseen parseURL w originalLink))"

fun visitLinks ::
  "(string \<Rightarrow> url option) \<Rightarrow> (string \<Rightarrow> string \<Rightarrow> int) \<Rightarrow> string list \<Rightarrow> string list list
     \<Rightarrow> walk \<Rightarrow> string list \<Rightarrow> walk option" where
  "visitLinks parseURL localeCompare jupyterbookURLs allLinks w [] = Some w"
| "visitLinks parseURL localeCompare jupyterbookURLs allLinks w (originalLink # rest) =
     (case visitLink parseURL localeCompare jupyterbookURLs allLinks w originalLink of
        None \<Rightarrow> None
      | Some w' \<Rightarrow> visitLinks parseURL localeCompare jupyterbookURLs allLinks w' rest)"

definition expandJupyterBookLinks ::
  "(string \<Rightarrow> url option) \<Rightarrow> (string \<Rightarrow> string \<Rightarrow> int) \<Rightarrow> (string \<Rightarrow> string list)
     \<Rightarrow> string list \<Rightarrow> string list \<Rightarrow> string list option" where
  "expandJupyterBookLinks parseURL localeCompare collected sourceLinks jupyterbookURLs =
     (let jupyterBookUrls = filter (isJupyterBookLink jupyterbookURLs) sourceLinks;
          allLinks = map (\<lambda>url. findJupyterBookLinks_sorted parseURL localeCompare (collected url))
                       jupyterBookUrls
      in case visitLinks parseURL localeCompare jupyterbookURLs allLinks
                \<lparr>result = [], seenUrls = {}, jupyterBookIndex = 0\<rparr> sourceLinks of
           None \<Rightarrow> None
         | Some w \<Rightarrow> Some (result w))"

text \<open>
  Concrete inputs: a URL parser for texts of the form
  \<open>scheme://authority/path?query#fragment\<close>, which lower-cases scheme and authority
  and gives an empty path as \<open>/\<close>, as the engine does for such texts; a comparison
  of texts by character codes; and a book page with three chapter links.
\<close>

definition toLowerCase :: "string \<Rightarrow> string" where
  "toLowerCase s =
     map (\<lambda>c. case map_of (zip ''ABCDEFGHIJKLMNOPQRSTUVWXYZ'' ''abcdefghijklmnopqrstuvwxyz'') c of
                 None \<Rightarrow> c | Some l \<Rightarrow> l) s"

definition afterFirst :: "char \<Rightarrow> string \<Rightarrow> string option" where
  "afterFirst c s = (case dropWhile (\<lambda>x. x \<noteq> c) s of [] \<Rightarrow> None | d # rest \<Rightarrow> Some rest)"

definition parseSimple :: "string \<Rightarrow> url option" where
  "parseSimple s =
     (let beforeFragment = takeWhile (\<lambda>x. x \<noteq> CHR ''#'') s;
          beforeQuery = takeWhile (\<lambda>x. x \<noteq> CHR ''?'') beforeFragment
      in case splitAtFirst beforeQuery ''://'' of
           None \<Rightarrow> None
         | Some (scheme, rest) \<Rightarrow>
             if scheme = [] then None
             else Some \<lparr>url_scheme = toLowerCase scheme,
                        url_authority = toLowerCase (takeWhile (\<lambda>x. x \<noteq> CHR ''/'') rest),
                        url_path = (case dropWhile (\<lambda>x. x \<noteq> CHR ''/'') rest of
                                      [] \<Rightarrow> ''/'' | p # ps \<Rightarrow> p # ps),
                        url_query = afterFirst CHR ''?'' beforeFragment,
                        url_fragment = afterFirst CHR ''#'' s\<rparr>)"

fun compareCodes :: "string \<Rightarrow> string \<Rightarrow> int" where
  "compareCodes [] [] = 0"
| "compareCodes [] (b # bs) = - 1"
| "compareCodes (a # as) [] = 1"
| "compareCodes (a # as) (b # bs) =
     (if a = b then compareCodes as bs
      else if (of_char a :: nat) < of_char b then - 1 else 1)"

definition chapterPage :: string where
  "chapterPage = ''https://book.org/chapters/3/index.html''"

definition chapterPageLinks :: "string \<Rightarrow> string list" where
  "chapterPageLinks pageUrl =
     (if pageUrl = chapterPage
      then [''https://book.org/chapters/3/x/chapters/3/5'', ''https://book.org/chapters/3/2'',
            ''https://book.org/chapters/3/y/chapters/3/1'']
      else [])"

section \<open>Predicate evaluation\<close>

lemma context_bound_without_context:
  "context_bound p \<Longrightarrow> contextForIndex i = None \<Longrightarrow> \<not> evaluatePredicate rx p contextForIndex i"
proof (induction p)
  case (AND ps)
  then obtain q qs where ps: "ps = q # qs" by (cases ps) auto
  with AND show ?case by (auto simp: list_all_iff)
next
  case (OR ps)
  then show ?case by (auto simp: list_all_iff list_ex_iff)
qed simp_all

text \<open>
  C2, as the code has it. \<open>NearbyCell(offset, inner)\<close> evaluates \<open>inner\<close> at
  \<open>currentIndex + offset\<close>. When that index has no context and \<open>inner\<close> is built from
  context-reading predicates with \<open>OR\<close> and non-empty \<open>AND\<close>, the result is false.
  The evaluator is a total function into \<open>bool\<close>: no branch of it raises.
\<close>

theorem nearbyCell_out_of_range_false:
  assumes "context_bound inner"
    and "contextForIndex (currentIndex + offset) = None"
  shows "evaluatePredicate rx (NearbyCell offset inner) contextForIndex currentIndex = False"
  using assms
    context_bound_without_context [where p = inner and contextForIndex = contextForIndex
      and i = "currentIndex + offset" and rx = rx]
  by simp

theorem nearbyCell_out_of_range_false_witness:
  "context_bound (OR [Content (Literal ''x = 1''), HasError False])
   \<and> oneCell (0 + 1) = None
   \<and> evaluatePredicate sampleRegExp
       (NearbyCell 1 (OR [Content (Literal ''x = 1''), HasError False])) oneCell 0 = False"
proof -
  have a: "context_bound (OR [Content (Literal ''x = 1''), HasError False])" by simp
  have b: "oneCell (0 + 1) = None" by (simp add: oneCell_def)
  from a b
    nearbyCell_out_of_range_false [where inner = "OR [Content (Literal ''x = 1''), HasError False]"
      and contextForIndex = oneCell and currentIndex = 0 and offset = 1 and rx = sampleRegExp]
  show ?thesis by blast
qed

text \<open>
  C2 as stated fails: with a negated inner predicate the nearby predicate is true at
  an index that has no context.
\<close>

theorem nearbyCell_out_of_range_counterexample:
  "noCells (0 + 1) = None
   \<and> evaluatePredicate sampleRegExp (NearbyCell 1 (NOT (HasError True))) noCells 0 = True"
  by (simp add: noCells_def)

text \<open>
  C8. An empty \<open>AND\<close> is true, an empty \<open>OR\<close> is false, and \<open>Tags {all: matcher}\<close> is
  true on a cell without tags, for every lookup, index and matcher.
\<close>

theorem empty_combinators:
  assumes "contextForIndex cellIndex = Some cell" and "tags cell = []"
  shows "evaluatePredicate rx (AND []) lookup i = True
       \<and> evaluatePredicate rx (OR []) lookup i = False
       \<and> evaluatePredicate rx (Tags (All m)) contextForIndex cellIndex = True"
  using assms by simp

theorem empty_combinators_witness:
  "oneCell 0 = Some untaggedCell \<and> tags untaggedCell = []
   \<and> evaluatePredicate sampleRegExp (AND []) noCells 5 = True
   \<and> evaluatePredicate sampleRegExp (OR []) noCells 5 = False
   \<and> evaluatePredicate sampleRegExp (Tags (All (Is ''jupytutor:disable''))) oneCell 0 = True"
proof -
  have a: "oneCell 0 = Some untaggedCell" by (simp add: oneCell_def)
  have b: "tags untaggedCell = []" by (simp add: untaggedCell_def)
  from a b
    empty_combinators [where contextForIndex = oneCell and cellIndex = 0
      and cell = untaggedCell and rx = sampleRegExp and lookup = noCells and i = 5
      and m = "Is ''jupytutor:disable''"]
  show ?thesis by blast
qed

text \<open>
  C9. When the pattern (with the given flags, or the empty flags when none are
  given) does not compile, the regex matcher is a non-match for every value, and so
  is every predicate that reads it; the results are plain booleans, no error value
  exists in the evaluator's result type.
\<close>

theorem regex_compile_failure_is_non_match:
  assumes "rx pattern (case flags of None \<Rightarrow> [] | Some f \<Rightarrow> f) = Inl e"
  shows "evaluateStringPredicate rx v (MatchesRegex pattern flags) = False
       \<and> evaluatePredicate rx (Content (MatchesRegex pattern flags)) contextForIndex i = False
       \<and> evaluatePredicate rx (Output (MatchesRegex pattern flags)) contextForIndex i = False
       \<and> evaluatePredicate rx (Tags (Any (MatchesRegex pattern flags))) contextForIndex i = False"
  using assms by (auto simp: list_ex_iff split: option.splits)

theorem regex_compile_failure_is_non_match_witness:
  "sampleRegExp ''['' (case None of None \<Rightarrow> [] | Some f \<Rightarrow> f) = Inl SyntaxError
   \<and> evaluateStringPredicate sampleRegExp ''[abc'' (MatchesRegex ''['' None) = False
   \<and> evaluatePredicate sampleRegExp (Content (MatchesRegex ''['' None)) oneCell 0 = False"
proof -
  have a: "sampleRegExp ''['' (case None of None \<Rightarrow> [] | Some f \<Rightarrow> f) = Inl SyntaxError"
    by (simp add: sampleRegExp_def)
  from a
    regex_compile_failure_is_non_match [where rx = sampleRegExp and pattern = "''[''"
      and flags = None and e = SyntaxError and v = "''[abc''" and contextForIndex = oneCell
      and i = 0]
  show ?thesis by blast
qed

section \<open>Merging rule configurations\<close>

lemma startsWith_take: "startsWith s p \<longleftrightarrow> take (length p) s = p"
  by (induction s p rule: startsWith.induct) auto

lemma js_includes_splitAtFirst: "js_includes s p \<longleftrightarrow> splitAtFirst s p \<noteq> None"
  by (induction s) (auto split: option.splits)

lemma splitAtFirst_append: "splitAtFirst s p = Some (a, b) \<Longrightarrow> s = a @ p @ b"
proof (induction s arbitrary: a)
  case Nil
  then show ?case by (auto split: if_splits)
next
  case (Cons c cs)
  show ?case
  proof (cases "startsWith (c # cs) p")
    case True
    with Cons.prems have "a = []" "b = drop (length p) (c # cs)" by auto
    moreover from True have "take (length p) (c # cs) = p" by (simp only: startsWith_take)
    ultimately show ?thesis by (metis append_Nil append_take_drop_id)
  next
    case False
    with Cons.prems obtain a' where "splitAtFirst cs p = Some (a', b)" "a = c # a'"
      by (auto split: option.splits)
    with Cons.IH show ?thesis by auto
  qed
qed

lemma getSubstitution_no_dollar:
  "CHR ''$'' \<notin> set r \<Longrightarrow> getSubstitution m a b r = r"
  by (induction m a b r rule: getSubstitution.induct) auto

text \<open>
  What the merge does on every input: a key present in the update replaces the key
  of the current configuration, an instructor note without the placeholder
  replaces the current note, and a note with the placeholder has its first
  occurrence replaced by the current note when the current note has no dollar sign.
\<close>

lemma mergeRuleConfigs_other_keys:
  "chatEnabled (mergeRuleConfigs current update) =
     (case chatEnabled_opt update of None \<Rightarrow> chatEnabled current | Some b \<Rightarrow> b)
   \<and> chatProactive (mergeRuleConfigs current update) =
     (case chatProactive_opt update of None \<Rightarrow> chatProactive current | Some b \<Rightarrow> b)
   \<and> quickResponses (mergeRuleConfigs current update) =
     (case quickResponses_opt update of None \<Rightarrow> quickResponses current | Some q \<Rightarrow> q)"
  by (simp add: mergeRuleConfigs_def Let_def)

lemma mergeRuleConfigs_note_without_placeholder:
  "instructorNote_opt update = Some note \<Longrightarrow> \<not> js_includes note priorNotesPlaceholder
   \<Longrightarrow> instructorNote (mergeRuleConfigs current update) = note"
  by (simp add: mergeRuleConfigs_def Let_def)

lemma mergeRuleConfigs_placeholder_no_dollar:
  assumes "instructorNote_opt update = Some note"
    and "splitAtFirst note priorNotesPlaceholder = Some (before, after)"
    and "CHR ''$'' \<notin> set (instructorNote current)"
  shows "instructorNote (mergeRuleConfigs current update) = before @ instructorNote current @ after"
proof -
  from assms(2) have "js_includes note priorNotesPlaceholder"
    by (simp add: js_includes_splitAtFirst)
  with assms show ?thesis
    by (simp add: mergeRuleConfigs_def Let_def js_replace_def getSubstitution_no_dollar)
qed

text \<open>
  C3 at a prior note with display mathematics: the note \<open>Recall $$a^2+b^2=c^2$$\<close>
  merged into \<open>{{prior_notes}} Also a hint.\<close> loses a dollar sign on each side,
  because the replacement text goes through the engine's dollar patterns. The
  claim asks for \<open>Recall $$a^2+b^2=c^2$$ Also a hint.\<close>
\<close>

theorem mergeRuleConfigs_placeholder_dollar:
  "instructorNote
     (mergeRuleConfigs (baseConfig\<lparr>instructorNote := ''Recall $$a^2+b^2=c^2$$''\<rparr>)
        (noOverride\<lparr>instructorNote_opt := Some ''{{prior_notes}} Also a hint.''\<rparr>))
   = ''Recall $a^2+b^2=c^2$ Also a hint.''"
  by (simp add: mergeRuleConfigs_def Let_def js_replace_def priorNotesPlaceholder_def
      baseConfig_def noOverride_def)

section \<open>Output text of a code cell\<close>

lemma extractOutputText_is_precedence:
  "extractOutputText host item = extractOutputText_precedence host item"
proof (cases "js_truthy item")
  case False
  then show ?thesis by (simp add: extractOutputText_def extractOutputText_precedence_def)
next
  case True
  show ?thesis
  proof (cases "get_prop item ''data''")
    case None
    with True show ?thesis
      by (simp add: extractOutputText_def extractOutputText_precedence_def textCandidates_def
          dataEntry_def split: option.splits)
  next
    case (Some d)
    show ?thesis
    proof (cases d)
      case (JObj kvs)
      show ?thesis
      proof (cases "map_of kvs ''text/plain''")
        case None
        with True Some JObj show ?thesis
          by (simp add: extractOutputText_def extractOutputText_precedence_def
              textCandidates_def dataEntry_def split: option.splits)
      next
        case inner: (Some w)
        with True Some JObj show ?thesis
          by (cases w)
            (simp_all add: extractOutputText_def extractOutputText_precedence_def
              textCandidates_def dataEntry_def split: option.splits)
      qed
    qed (use True Some in \<open>simp_all add: extractOutputText_def extractOutputText_precedence_def
          textCandidates_def dataEntry_def split: option.splits\<close>)
  qed
qed

text \<open>
  C7, as the code has it. For a code cell the output text is the newline join of
  the non-empty extracted texts of its outputs, where the extraction of one item is
  the empty string for a falsy item and otherwise the first defined of
  \<open>data["text/plain"]\<close> (when not \<open>null\<close>), \<open>data.text\<close>, the direct \<open>text\<close> field
  (an array of lines joined with newline), then \<open>evalue\<close> as a string, then the
  serialized item.
\<close>

theorem outputText_of_code_cell:
  assumes "model_type c = ''code''"
  shows "outputText (buildCellContext host c) =
         js_join newline
           (filter (\<lambda>s. s \<noteq> []) (map (extractOutputText_precedence host) (outputs c)))"
proof -
  have "extractOutputText host = extractOutputText_precedence host"
    by (rule ext) (rule extractOutputText_is_precedence)
  with assms show ?thesis
    by (simp add: buildCellContext_def Let_def extractOutputsAsText_def)
qed

theorem outputText_of_code_cell_witness:
  "model_type streamCell = ''code''
   \<and> outputText (buildCellContext sampleHost streamCell) = ''a'' @ newline @ ''b'' @ newline @ ''boom''
   \<and> js_join newline
       (filter (\<lambda>s. s \<noteq> []) (map (extractOutputText_precedence sampleHost) (outputs streamCell)))
     = ''a'' @ newline @ ''b'' @ newline @ ''boom''"
proof -
  have a: "model_type streamCell = ''code''" by (simp add: streamCell_def)
  have b: "outputText (buildCellContext sampleHost streamCell)
           = ''a'' @ newline @ ''b'' @ newline @ ''boom''"
    by (simp add: buildCellContext_def Let_def extractOutputsAsText_def extractOutputText_def
        streamCell_def streamOutput_def sampleHost_def newline_def)
  from a b outputText_of_code_cell [where c = streamCell and host = sampleHost]
  show ?thesis by simp
qed

text \<open>
  C7 as stated fails: an output with a \<open>data.text\<close> entry and a direct \<open>text\<close> field
  yields the \<open>data.text\<close> entry, where the claimed precedence yields the direct field.
\<close>

theorem outputText_counterexample:
  "model_type displayCell = ''code''
   \<and> outputs displayCell = [displayOutput]
   \<and> outputText (buildCellContext sampleHost displayCell) = ''inner''
   \<and> extractOutputText_claimed sampleHost displayOutput = ''outer''"
  by (simp add: buildCellContext_def Let_def extractOutputsAsText_def extractOutputText_def
      extractOutputText_claimed_def displayCell_def displayOutput_def sampleHost_def)

section \<open>Invalid cell-level overrides\<close>

lemma buildCellContext_withoutOverride:
  "buildCellContext host (withoutOverride c) = buildCellContext host c"
  by (simp add: buildCellContext_def withoutOverride_def extractOutputsAsText_def
      detectOutputError_def)

lemma cells_get_update:
  "cells_get (cells[k := c']) index =
     (if index = int k \<and> k < length cells then Some c' else cells_get cells index)"
  by (auto simp: cells_get_def nth_list_update)

lemma getCellContext_withoutOverride:
  assumes "k < length cells"
  shows "getCellContext host (cells[k := withoutOverride (cells ! k)]) = getCellContext host cells"
proof (rule ext)
  fix index
  show "getCellContext host (cells[k := withoutOverride (cells ! k)]) index
        = getCellContext host cells index"
    using assms
    by (cases "nat index = k")
      (auto simp: getCellContext_def cells_get_def nth_list_update
        buildCellContext_withoutOverride)
qed

lemma applyRule_withoutOverride:
  assumes "k < length cells"
  shows "applyRule host (cells[k := withoutOverride (cells ! k)]) cellIndex
         = applyRule host cells cellIndex"
  by (intro ext) (simp only: applyRule_def getCellContext_withoutOverride [OF assms])

lemma applyConfigRules_ignored:
  assumes "cells_get cells cellIndex = Some c"
    and "metadata c ''jupytutor'' = Some m" and "\<not> validOverride m"
  shows "applyConfigRules host cells cellIndex configRules
         = foldl (applyRule host cells cellIndex) baseConfig configRules"
  using assms by (cases m) (auto simp: applyConfigRules_def Let_def)

lemma applyConfigRules_no_metadata:
  assumes "cells_get cells cellIndex = Some c" and "metadata c ''jupytutor'' = None"
  shows "applyConfigRules host cells cellIndex configRules
         = foldl (applyRule host cells cellIndex) baseConfig configRules"
  using assms by (simp add: applyConfigRules_def Let_def)

text \<open>
  C4. When the \<open>jupytutor\<close> metadata of the cell is not a non-null, non-array object,
  or fails the schema as a partial configuration, the resolved configuration is the
  one of the same notebook with that cell carrying no \<open>jupytutor\<close> metadata at all.
\<close>

theorem invalid_override_ignored:
  assumes "cells_get cells cellIndex = Some c"
    and "metadata c ''jupytutor'' = Some m"
    and "\<not> validOverride m"
  shows "applyConfigRules host cells cellIndex configRules
         = applyConfigRules host (cells[nat cellIndex := withoutOverride c]) cellIndex configRules"
proof -
  from assms(1) have range: "0 \<le> cellIndex" "nat cellIndex < length cells"
    and c: "c = cells ! nat cellIndex"
    by (auto simp: cells_get_def split: if_splits)
  let ?cells = "cells[nat cellIndex := withoutOverride c]"
  have get: "cells_get ?cells cellIndex = Some (withoutOverride c)"
    using range by (simp add: cells_get_update)
  have none: "metadata (withoutOverride c) ''jupytutor'' = None"
    by (simp add: withoutOverride_def)
  have "applyConfigRules host ?cells cellIndex configRules
        = foldl (applyRule host ?cells cellIndex) baseConfig configRules"
    by (rule applyConfigRules_no_metadata [OF get none])
  also have "applyRule host ?cells cellIndex = applyRule host cells cellIndex"
    unfolding c by (rule applyRule_withoutOverride [OF range(2)])
  also have "foldl (applyRule host cells cellIndex) baseConfig configRules
        = applyConfigRules host cells cellIndex configRules"
    by (rule applyConfigRules_ignored [OF assms, symmetric])
  finally show ?thesis by simp
qed

theorem invalid_override_ignored_witness:
  "cells_get [badTypeCell] 0 = Some badTypeCell
   \<and> metadata badTypeCell ''jupytutor''
       = Some (JObj [(''instructorNote'', JStr ''Cell note''), (''chatEnabled'', JStr ''yes'')])
   \<and> \<not> validOverride (JObj [(''instructorNote'', JStr ''Cell note''), (''chatEnabled'', JStr ''yes'')])
   \<and> applyConfigRules sampleHost [badTypeCell] 0 [ruleNote]
       = applyConfigRules sampleHost ([badTypeCell][nat 0 := withoutOverride badTypeCell]) 0 [ruleNote]
   \<and> instructorNote (applyConfigRules sampleHost [badTypeCell] 0 [ruleNote]) = ''Rule note''"
proof -
  have a: "cells_get [badTypeCell] 0 = Some badTypeCell" by (simp add: cells_get_def)
  have b: "metadata badTypeCell ''jupytutor''
       = Some (JObj [(''instructorNote'', JStr ''Cell note''), (''chatEnabled'', JStr ''yes'')])"
    by (simp add: badTypeCell_def)
  have c: "\<not> validOverride (JObj [(''instructorNote'', JStr ''Cell note''), (''chatEnabled'', JStr ''yes'')])"
    by (simp add: safeParse_def)
  have d: "instructorNote (applyConfigRules sampleHost [badTypeCell] 0 [ruleNote]) = ''Rule note''"
    by (simp add: applyConfigRules_def Let_def a b safeParse_def applyRule_def ruleNote_def
        noOverride_def withDefaults_def mergeRuleConfigs_def baseConfig_def
        priorNotesPlaceholder_def)
  from a b c d invalid_override_ignored [OF a b c, of sampleHost "[ruleNote]"]
  show ?thesis by blast
qed

section \<open>The context retriever\<close>

text \<open>
  C1 on the code. A retriever built without debug mode and without expansion for
  one source link has its \<open>_loadedPromise\<close> settled while the fetch is still in
  flight: an enforcing \<open>getContext\<close> returns \<open>null\<close> then, and the scraped text only
  arrives with the fetches.
\<close>

theorem getContext_enforcing_returns_before_scraping:
  "background (construct oneLinkConfig) = AwaitFetches
   \<and> getContext True (construct oneLinkConfig) = Some None
   \<and> getContext True (deliver (construct oneLinkConfig) (FetchesSettled servedPages))
      = Some (Some (''[LINK] '' @ estimationUrl @ '' [/LINK]'' @ newline @ ''Estimation''))"
  by (simp add: construct_def oneLinkConfig_def scrapeSourceLinks_begin_def
      scrapeSourceLinks_resume_def Let_def getContext_def awaited_def isBlacklisted_def
      scrapePageText_def servedPages_def estimationUrl_def)

text \<open>
  The same on every configuration without debug mode and without expansion that
  has a source link: the promise is settled, the fetches are pending, and the
  context is still \<open>null\<close>.
\<close>

lemma construct_settled_while_fetching:
  assumes "\<not> cfg_debug cfg" and "\<not> cfg_attemptJupyterbookLinkExpansion cfg"
    and "cfg_sourceLinks cfg \<noteq> []"
  shows "background (construct cfg) = AwaitFetches
       \<and> getContext True (construct cfg) = Some None"
  using assms
  by (simp add: construct_def scrapeSourceLinks_begin_def Let_def getContext_def awaited_def)

lemma stored_sourceLinks_scrapeSourceLinks_begin:
  "stored_sourceLinks (scrapeSourceLinks_begin r) =
     filter (\<lambda>url. (whitelistedURLs r = [] \<or> isWhitelisted r url) \<and> \<not> isBlacklisted r url)
       (stored_sourceLinks r)"
proof -
  have bl: "blacklistedURLs r = [] \<Longrightarrow> \<not> isBlacklisted r url" for url
    by (simp add: isBlacklisted_def)
  show ?thesis
    by (auto simp: scrapeSourceLinks_begin_def Let_def isBlacklisted_def isWhitelisted_def
        intro: filter_cong)
qed

lemma lists_scrapeSourceLinks_begin:
  "whitelistedURLs (scrapeSourceLinks_begin r) = whitelistedURLs r"
  "blacklistedURLs (scrapeSourceLinks_begin r) = blacklistedURLs r"
  by (simp_all add: scrapeSourceLinks_begin_def Let_def)

lemma background_scrapeSourceLinks_begin:
  "background (scrapeSourceLinks_begin r) \<noteq> AwaitExpansion"
  by (simp add: scrapeSourceLinks_begin_def Let_def)

lemma deliver_after_scraping:
  "background r \<noteq> AwaitExpansion \<Longrightarrow>
     stored_sourceLinks (deliver r ev) = stored_sourceLinks r
     \<and> background (deliver r ev) \<noteq> AwaitExpansion"
  by (cases ev) (auto simp: scrapeSourceLinks_resume_def Let_def)

lemma foldl_deliver_after_scraping:
  "background r \<noteq> AwaitExpansion \<Longrightarrow>
     stored_sourceLinks (foldl deliver r evs) = stored_sourceLinks r"
proof (induction evs arbitrary: r)
  case Nil
  then show ?case by simp
next
  case (Cons ev evs)
  from deliver_after_scraping [OF Cons.prems, of ev]
  have "stored_sourceLinks (deliver r ev) = stored_sourceLinks r"
    and "background (deliver r ev) \<noteq> AwaitExpansion" by simp_all
  with Cons.IH [of "deliver r ev"] show ?case by simp
qed

text \<open>
  C10. The scraping stage replaces the stored link list by its links that match a
  whitelist entry (when the whitelist is not empty) and no blacklist entry, and
  whatever the event loop delivers afterwards, a \<open>getSourceLinks\<close> call that
  returns, returns that filtered list.
\<close>

theorem getSourceLinks_after_scraping:
  assumes "getSourceLinks enforcing (foldl deliver (scrapeSourceLinks_begin r) evs) = Some links"
  shows "links =
     filter (\<lambda>url. (whitelistedURLs r = [] \<or> list_ex (js_includes url) (whitelistedURLs r))
                 \<and> \<not> list_ex (js_includes url) (blacklistedURLs r))
       (stored_sourceLinks r)"
proof -
  from assms have "links = stored_sourceLinks (foldl deliver (scrapeSourceLinks_begin r) evs)"
    by (simp add: getSourceLinks_def split: if_splits)
  also have "\<dots> = stored_sourceLinks (scrapeSourceLinks_begin r)"
    by (rule foldl_deliver_after_scraping [OF background_scrapeSourceLinks_begin])
  finally show ?thesis
    by (simp add: stored_sourceLinks_scrapeSourceLinks_begin isWhitelisted_def isBlacklisted_def)
qed

theorem getSourceLinks_after_scraping_witness:
  "getSourceLinks True
     (foldl deliver (scrapeSourceLinks_begin (construct mixedLinksConfig))
        [SoftTimeoutElapsed, FetchesSettled servedPages]) = Some [estimationUrl]
   \<and> [estimationUrl] =
     filter (\<lambda>url. (whitelistedURLs (construct mixedLinksConfig) = []
                    \<or> list_ex (js_includes url) (whitelistedURLs (construct mixedLinksConfig)))
                 \<and> \<not> list_ex (js_includes url) (blacklistedURLs (construct mixedLinksConfig)))
       (stored_sourceLinks (construct mixedLinksConfig))"
proof -
  have a: "getSourceLinks True
     (foldl deliver (scrapeSourceLinks_begin (construct mixedLinksConfig))
        [SoftTimeoutElapsed, FetchesSettled servedPages]) = Some [estimationUrl]"
    by (simp add: construct_def mixedLinksConfig_def scrapeSourceLinks_begin_def
        scrapeSourceLinks_resume_def Let_def getSourceLinks_def awaited_def isBlacklisted_def
        isWhitelisted_def estimationUrl_def)
  from a getSourceLinks_after_scraping [OF a] show ?thesis by blast
qed

section \<open>URL normalization and link expansion\<close>

text \<open>
  C6, as the code has it. The key of a text that parses as a URL is the
  serialization of the parsed URL without its fragment and, when the path is longer
  than one character and ends with a slash, without that last slash; scheme,
  authority and query are those of the parsed URL. A text that does not parse is
  its own key. The two examples of the claim have the same key, and the root path
  keeps its slash.
\<close>

theorem normalizeUrl_key:
  "(parseURL s = None \<longrightarrow> normalizeUrl parseURL s = s)
   \<and> (parseURL s = Some u \<longrightarrow>
        normalizeUrl parseURL s =
          url_scheme u @ ''://'' @ url_authority u
          @ (if length (url_path u) > 1 \<and> last (url_path u) = CHR ''/''
             then butlast (url_path u) else url_path u)
          @ (case url_query u of None \<Rightarrow> [] | Some q \<Rightarrow> ''?'' @ q))
   \<and> normalizeUrl parseSimple ''https://site.com/a/'' = ''https://site.com/a''
   \<and> normalizeUrl parseSimple ''https://site.com/a#frag'' = ''https://site.com/a''
   \<and> normalizeUrl parseSimple ''https://site.com/'' = ''https://site.com/''"
proof (intro conjI impI)
  show "normalizeUrl parseSimple ''https://site.com/a/'' = ''https://site.com/a''"
    by (simp add: normalizeUrl_def parseSimple_def toLowerCase_def afterFirst_def href_def Let_def)
  show "normalizeUrl parseSimple ''https://site.com/a#frag'' = ''https://site.com/a''"
    by (simp add: normalizeUrl_def parseSimple_def toLowerCase_def afterFirst_def href_def Let_def)
  show "normalizeUrl parseSimple ''https://site.com/'' = ''https://site.com/''"
    by (simp add: normalizeUrl_def parseSimple_def toLowerCase_def afterFirst_def href_def Let_def)
qed (simp_all add: normalizeUrl_def href_def Let_def)

theorem normalizeUrl_key_witness:
  "parseSimple ''notes/#intro'' = None
   \<and> normalizeUrl parseSimple ''notes/#intro'' = ''notes/#intro''
   \<and> parseSimple ''https://site.com/a/?q=1#frag'' =
       Some \<lparr>url_scheme = ''https'', url_authority = ''site.com'', url_path = ''/a/'',
             url_query = Some ''q=1'', url_fragment = Some ''frag''\<rparr>
   \<and> normalizeUrl parseSimple ''https://site.com/a/?q=1#frag'' = ''https://site.com/a?q=1''"
proof -
  have a: "parseSimple ''notes/#intro'' = None"
    by (simp add: parseSimple_def Let_def)
  have b: "parseSimple ''https://site.com/a/?q=1#frag'' =
       Some \<lparr>url_scheme = ''https'', url_authority = ''site.com'', url_path = ''/a/'',
             url_query = Some ''q=1'', url_fragment = Some ''frag''\<rparr>"
    by (simp add: parseSimple_def toLowerCase_def afterFirst_def Let_def)
  from a normalizeUrl_key [where parseURL = parseSimple and s = "''notes/#intro''"]
  have c: "normalizeUrl parseSimple ''notes/#intro'' = ''notes/#intro''" by blast
  from b normalizeUrl_key [where parseURL = parseSimple and s = "''https://site.com/a/?q=1#frag''"
      and u = "\<lparr>url_scheme = ''https'', url_authority = ''site.com'', url_path = ''/a/'',
             url_query = Some ''q=1'', url_fragment = Some ''frag''\<rparr>"]
  have d: "normalizeUrl parseSimple ''https://site.com/a/?q=1#frag'' = ''https://site.com/a?q=1''"
    by simp
  from a b c d show ?thesis by blast
qed

text \<open>
  C6 as stated fails: a URL without fragment and without trailing slash does not
  keep its character case, because the key is the serialization of the parsed URL;
  and a text that does not parse as a URL keeps its fragment and its slash.
\<close>

theorem normalizeUrl_counterexample:
  "normalizeUrl parseSimple ''https://Site.COM/Page'' = ''https://site.com/Page''
   \<and> normalizeUrl parseSimple ''notes/#intro'' = ''notes/#intro''"
  by (simp add: normalizeUrl_def parseSimple_def toLowerCase_def afterFirst_def href_def Let_def)

text \<open>
  C5 on the code. A chapter page whose links are \<open>/chapters/3/x/chapters/3/5\<close>,
  \<open>/chapters/3/2\<close> and \<open>/chapters/3/y/chapters/3/1\<close>: \<open>sortChapterSectionLinks\<close>
  reads the subsections 5, 2 and 1, the comparator of the loop reads 0, 2 and 0, and
  the expansion comes out in neither order.
\<close>

theorem expandJupyterBookLinks_two_patterns:
  "findJupyterBookLinks_sorted parseSimple compareCodes (chapterPageLinks chapterPage)
     = [''https://book.org/chapters/3/y/chapters/3/1'', ''https://book.org/chapters/3/2'',
        ''https://book.org/chapters/3/x/chapters/3/5'']
   \<and> expandJupyterBookLinks parseSimple compareCodes chapterPageLinks [chapterPage] [''book.org'']
     = Some [chapterPage, ''https://book.org/chapters/3/y/chapters/3/1'',
             ''https://book.org/chapters/3/x/chapters/3/5'', ''https://book.org/chapters/3/2'']"
  by code_simp

end
